theory Spec2Isabelle
  imports Main "HOL-Library.Word" "HOL-Library.Multiset"
begin

section \<open>argh: a header-only command line parser (src/argh.h, src/main.cpp)\<close>

text \<open>
  The development embeds \<^verbatim>\<open>argh.h\<close> as it is written: the conversion functions
  \<^verbatim>\<open>fromStr<T>\<close>, the class \<^verbatim>\<open>Parameter<ValueT>\<close>, the class \<^verbatim>\<open>Parser\<close> with
  its array \<^verbatim>\<open>params_[kMaxParams]\<close> indexed by the key character, and the class
  \<^verbatim>\<open>Args\<close>. Memory of the caller (the fields the parameters write to) is an explicit
  store; a null pointer dereference, an access outside an array and the construction of
  a \<^verbatim>\<open>std::string\<close> from a null pointer have no defined result in C++ and are the
  values of type \<open>fault\<close>.
\<close>

subsection \<open>Values and caller memory\<close>

text \<open>
  A \<^verbatim>\<open>float\<close> and a \<^verbatim>\<open>double\<close> are kept as their IEEE-754 bit patterns. Which
  characters \<^verbatim>\<open>std::stof\<close> and \<^verbatim>\<open>std::stod\<close> read as a number is modelled below; the
  value of what they read, whether it is in range, and what \<^verbatim>\<open>operator<<\<close> prints for
  a value are floating-point arithmetic of the C++ library: these four functions are a
  parameter \<open>fp\<close> of the model, and every general theorem holds for each choice of them.
\<close>

type_synonym c_float = "32 word"
type_synonym c_double = "64 word"

datatype value_t = TFloat | TDouble | TInt | TBool | TCString | TString

datatype val =
    VFloat c_float
  | VDouble c_double
  | VInt int
  | VBool bool
  | VCString "string option"
  | VString string

type_synonym addr = nat
type_synonym store = "addr \<Rightarrow> val"

datatype fault = NullDeref | OutOfBounds | NullString

datatype conv_exn = invalid_argument | out_of_range

record fp_lib =
  float_value :: "string \<Rightarrow> c_float option"
  double_value :: "string \<Rightarrow> c_double option"
  put_float :: "c_float \<Rightarrow> string"
  put_double :: "c_double \<Rightarrow> string"

subsection \<open>\<^verbatim>\<open>std::stoi\<close>\<close>

text \<open>
  \<^verbatim>\<open>std::stoi(s)\<close> is \<^verbatim>\<open>strtol\<close> in base 10 on the whole string: white space is
  skipped, one sign is read, then the digits are accumulated for as long as there are
  digits. It throws \<^verbatim>\<open>invalid_argument\<close> when no digit was read and
  \<^verbatim>\<open>out_of_range\<close> when the value is not an \<^verbatim>\<open>int\<close>; characters after the last
  digit are not looked at.
\<close>

definition isspace :: "char \<Rightarrow> bool" where
  "isspace c = (c = CHR '' '' \<or> ((9::nat) \<le> of_char c \<and> of_char c \<le> (13::nat)))"

definition isdigit :: "char \<Rightarrow> bool" where
  "isdigit c = ((48::nat) \<le> of_char c \<and> of_char c \<le> (57::nat))"

definition digit_val :: "char \<Rightarrow> int" where
  "digit_val c = int (of_char c) - 48"

fun strtol_digits :: "int \<Rightarrow> string \<Rightarrow> int" where
  "strtol_digits acc [] = acc"
| "strtol_digits acc (c # cs) =
     (if isdigit c then strtol_digits (acc * 10 + digit_val c) cs else acc)"

definition INT_MIN :: int where
  "INT_MIN = - 2147483648"

definition INT_MAX :: int where
  "INT_MAX = 2147483647"

definition strtol_sign :: "string \<Rightarrow> bool \<times> string" where
  "strtol_sign t =
     (case t of
        [] \<Rightarrow> (False, [])
      | c # r \<Rightarrow>
          if c = CHR ''-'' then (True, r)
          else if c = CHR ''+'' then (False, r)
          else (False, t))"

definition stoi :: "string \<Rightarrow> conv_exn + int" where
  "stoi s =
     (case strtol_sign (dropWhile isspace s) of
        (neg, u) \<Rightarrow>
          (case u of
             [] \<Rightarrow> Inl invalid_argument
           | c # cs \<Rightarrow>
               if \<not> isdigit c then Inl invalid_argument
               else
                 let v = strtol_digits 0 u;
                     r = (if neg then - v else v)
                 in if r < INT_MIN \<or> INT_MAX < r then Inl out_of_range
                    else Inr r))"

subsection \<open>\<^verbatim>\<open>std::stof\<close> and \<^verbatim>\<open>std::stod\<close>\<close>

text \<open>
  \<^verbatim>\<open>std::stof(s)\<close> is \<^verbatim>\<open>strtof\<close> on the whole string, \<^verbatim>\<open>std::stod(s)\<close> is
  \<^verbatim>\<open>strtod\<close>. After white space both read the longest piece of the input that has the
  form of a number: one sign or none; then \<^verbatim>\<open>infinity\<close> or \<^verbatim>\<open>inf\<close>, or
  \<^verbatim>\<open>nan\<close> with an optional sequence of letters, digits and underscores in
  parentheses, in any case of the letters; or \<^verbatim>\<open>0x\<close> and hexadecimal digits with an
  optional point and an optional exponent after \<^verbatim>\<open>p\<close>; or decimal digits with an
  optional point and an optional exponent after \<^verbatim>\<open>e\<close>. A mantissa has at least one
  digit, and an exponent counts only when it has a digit. The empty piece means that no
  conversion is performed: then \<^verbatim>\<open>invalid_argument\<close> is thrown. What follows the
  piece is not looked at.
\<close>

definition tolower :: "char \<Rightarrow> char" where
  "tolower c =
     (if (65::nat) \<le> of_char c \<and> of_char c \<le> (90::nat) then char_of (of_char c + (32::nat))
      else c)"

definition isxdigit :: "char \<Rightarrow> bool" where
  "isxdigit c =
     (isdigit c \<or> ((97::nat) \<le> of_char (tolower c) \<and> of_char (tolower c) \<le> (102::nat)))"

definition isnchar :: "char \<Rightarrow> bool" where
  "isnchar c =
     (isdigit c \<or> c = CHR ''_'' \<or>
      ((97::nat) \<le> of_char (tolower c) \<and> of_char (tolower c) \<le> (122::nat)))"

definition starts_nocase :: "string \<Rightarrow> string \<Rightarrow> bool" where
  "starts_nocase w u = (map tolower (take (length w) u) = w)"

definition sign_chars :: "string \<Rightarrow> string" where
  "sign_chars t = (if take 1 t = ''-'' \<or> take 1 t = ''+'' then take 1 t else [])"

definition exponent_part :: "char \<Rightarrow> string \<Rightarrow> string" where
  "exponent_part e r =
     (case r of
        [] \<Rightarrow> []
      | c # r' \<Rightarrow>
          if tolower c \<noteq> e then []
          else
            let sg = sign_chars r';
                ds = takeWhile isdigit (drop (length sg) r')
            in if ds = [] then [] else c # sg @ ds)"

definition mantissa :: "(char \<Rightarrow> bool) \<Rightarrow> string \<Rightarrow> string" where
  "mantissa dig u =
     (let ip = takeWhile dig u;
          r = drop (length ip) u;
          fd = (if take 1 r = ''.'' then takeWhile dig (drop 1 r) else [])
      in if ip = [] \<and> fd = [] then []
         else if take 1 r = ''.'' then ip @ ''.'' @ fd
         else ip)"

definition number_body :: "(char \<Rightarrow> bool) \<Rightarrow> char \<Rightarrow> string \<Rightarrow> string" where
  "number_body dig e u =
     (let ma = mantissa dig u
      in if ma = [] then [] else ma @ exponent_part e (drop (length ma) u))"

definition nan_tail :: "string \<Rightarrow> string" where
  "nan_tail r =
     (case r of
        [] \<Rightarrow> []
      | c # r' \<Rightarrow>
          if c \<noteq> CHR ''('' then []
          else
            let cs = takeWhile isnchar r'
            in if take 1 (drop (length cs) r') = '')'' then ''('' @ cs @ '')'' else [])"

definition strtod_subject :: "string \<Rightarrow> string" where
  "strtod_subject t =
     (let sg = sign_chars t;
          u = drop (length sg) t;
          body =
            (if starts_nocase ''infinity'' u then take 8 u
             else if starts_nocase ''inf'' u then take 3 u
             else if starts_nocase ''nan'' u then take 3 u @ nan_tail (drop 3 u)
             else if starts_nocase ''0x'' u \<and> number_body isxdigit CHR ''p'' (drop 2 u) \<noteq> []
               then take 2 u @ number_body isxdigit CHR ''p'' (drop 2 u)
             else number_body isdigit CHR ''e'' u)
      in if body = [] then [] else sg @ body)"

text \<open>
  The value of the piece read, and whether \<^verbatim>\<open>strtof\<close> reports it out of range
  (\<^verbatim>\<open>ERANGE\<close>, the result \<open>None\<close>), is the library's.
\<close>

definition stof :: "fp_lib \<Rightarrow> string \<Rightarrow> conv_exn + c_float" where
  "stof fp s =
     (let lit = strtod_subject (dropWhile isspace s)
      in if lit = [] then Inl invalid_argument
         else (case float_value fp lit of
                 None \<Rightarrow> Inl out_of_range
               | Some x \<Rightarrow> Inr x))"

definition stod :: "fp_lib \<Rightarrow> string \<Rightarrow> conv_exn + c_double" where
  "stod fp s =
     (let lit = strtod_subject (dropWhile isspace s)
      in if lit = [] then Inl invalid_argument
         else (case double_value fp lit of
                 None \<Rightarrow> Inl out_of_range
               | Some x \<Rightarrow> Inr x))"

subsection \<open>\<^verbatim>\<open>fromStr<T>\<close>\<close>

text \<open>
  The specialisations of lines 79 to 84. The argument is a \<^verbatim>\<open>const char*\<close>, which
  may be null (\<open>None\<close>). \<^verbatim>\<open>fromStr<bool>\<close> and \<^verbatim>\<open>fromStr<const char*>\<close> never read
  the characters; the other four build a \<^verbatim>\<open>std::string\<close> from the pointer first.
\<close>

fun fromStr :: "fp_lib \<Rightarrow> value_t \<Rightarrow> string option \<Rightarrow> fault + (conv_exn + val)" where
  "fromStr fp TFloat None = Inl NullString"
| "fromStr fp TFloat (Some s) = Inr (map_sum id VFloat (stof fp s))"
| "fromStr fp TDouble None = Inl NullString"
| "fromStr fp TDouble (Some s) = Inr (map_sum id VDouble (stod fp s))"
| "fromStr fp TInt None = Inl NullString"
| "fromStr fp TInt (Some s) = Inr (map_sum id VInt (stoi s))"
| "fromStr fp TBool s = Inr (Inr (VBool True))"
| "fromStr fp TCString s = Inr (Inr (VCString s))"
| "fromStr fp TString None = Inl NullString"
| "fromStr fp TString (Some s) = Inr (Inr (VString s))"

subsection \<open>\<^verbatim>\<open>ParamInfo\<close> and \<^verbatim>\<open>Parameter<ValueT>\<close>\<close>

text \<open>
  The three fields of \<^verbatim>\<open>ParseError\<close> are pointers to characters. \<^verbatim>\<open>desc\<close> is set to
  a string literal and \<^verbatim>\<open>source\<close> to the token, which live on; \<^verbatim>\<open>details\<close> is set to
  \<^verbatim>\<open>what()\<close> of the exception caught, whose characters belong to the exception object
  and are gone when the handler returns: after \<^verbatim>\<open>parseValue\<close> the pointer dangles.
\<close>

datatype char_ptr = Null | Chars string | Dangling

definition ptr_of :: "string option \<Rightarrow> char_ptr" where
  "ptr_of x = (case x of None \<Rightarrow> Null | Some s \<Rightarrow> Chars s)"

record parse_error =
  desc :: char_ptr
  source :: char_ptr
  details :: char_ptr

record parameter =
  key :: char
  name :: string
  isSet :: bool
  valueT :: value_t
  output_ptr :: addr
  defVal :: val
  help_text :: string
  hasDef :: bool
  parseErr :: parse_error

definition no_error :: parse_error where
  "no_error = \<lparr>desc = Null, source = Null, details = Null\<rparr>"

text \<open>The value a value-initialised \<^verbatim>\<open>ValueT\<close> holds (\<^verbatim>\<open>defVal_()\<close>).\<close>

fun value_init :: "value_t \<Rightarrow> val" where
  "value_init TFloat = VFloat 0"
| "value_init TDouble = VDouble 0"
| "value_init TInt = VInt 0"
| "value_init TBool = VBool False"
| "value_init TCString = VCString None"
| "value_init TString = VString []"

text \<open>The two constructors: with a default value, and without one.\<close>

definition Parameter_with_default ::
  "value_t \<Rightarrow> addr \<Rightarrow> char \<Rightarrow> string \<Rightarrow> string \<Rightarrow> val \<Rightarrow> parameter" where
  "Parameter_with_default T out k n h d =
     \<lparr>key = k, name = n, isSet = False, valueT = T, output_ptr = out, defVal = d,
      help_text = h, hasDef = True, parseErr = no_error\<rparr>"

definition Parameter_no_default ::
  "value_t \<Rightarrow> addr \<Rightarrow> char \<Rightarrow> string \<Rightarrow> string \<Rightarrow> parameter" where
  "Parameter_no_default T out k n h =
     \<lparr>key = k, name = n, isSet = False, valueT = T, output_ptr = out, defVal = value_init T,
      help_text = h, hasDef = False, parseErr = no_error\<rparr>"

definition usage :: "parameter \<Rightarrow> string" where
  "usage p = [key p]"

text \<open>
  \<^verbatim>\<open>ss << defVal_\<close>: an \<^verbatim>\<open>int\<close> prints in decimal, a \<^verbatim>\<open>bool\<close> as \<^verbatim>\<open>1\<close> or
  \<^verbatim>\<open>0\<close> (no \<^verbatim>\<open>boolalpha\<close>), a string as its characters; a null \<^verbatim>\<open>const char*\<close>
  must not be printed.
\<close>

definition digit_char :: "nat \<Rightarrow> char" where
  "digit_char n = char_of (48 + n)"

fun put_nat :: "nat \<Rightarrow> string" where
  "put_nat n = (if n < 10 then [digit_char n] else put_nat (n div 10) @ [digit_char (n mod 10)])"

definition put_int :: "int \<Rightarrow> string" where
  "put_int i = (if i < 0 then CHR ''-'' # put_nat (nat (- i)) else put_nat (nat i))"

fun put_val :: "fp_lib \<Rightarrow> val \<Rightarrow> fault + string" where
  "put_val fp (VFloat x) = Inr (put_float fp x)"
| "put_val fp (VDouble x) = Inr (put_double fp x)"
| "put_val fp (VInt i) = Inr (put_int i)"
| "put_val fp (VBool b) = Inr (if b then ''1'' else ''0'')"
| "put_val fp (VCString None) = Inl NullDeref"
| "put_val fp (VCString (Some s)) = Inr s"
| "put_val fp (VString s) = Inr s"

definition defaultStr :: "fp_lib \<Rightarrow> parameter \<Rightarrow> fault + string" where
  "defaultStr fp p = put_val fp (defVal p)"

text \<open>
  \<^verbatim>\<open>ss.width(n); ss << s\<close> under \<^verbatim>\<open>std::left\<close>: \<open>s\<close> followed by spaces up to
  \<open>n\<close> characters, and \<open>s\<close> whole when it is longer.
\<close>

definition put_left :: "nat \<Rightarrow> string \<Rightarrow> string" where
  "put_left n s = s @ replicate (n - length s) CHR '' ''"

definition endl :: string where
  "endl = [CHR 0x0A]"

definition param_help :: "fp_lib \<Rightarrow> parameter \<Rightarrow> fault + string" where
  "param_help fp p =
     (case (if hasDef p
            then (case defaultStr fp p of
                    Inl f \<Rightarrow> Inl f
                  | Inr d \<Rightarrow> Inr (''[default: '' @ d @ ''] ''))
            else Inr [])
      of Inl f \<Rightarrow> Inl f
       | Inr vs \<Rightarrow>
           Inr (put_left 5 ('' -'' @ [key p]) @ put_left 14 (''  --'' @ name p) @
                put_left 24 vs @ help_text p @ endl))"

text \<open>
  \<^verbatim>\<open>parseValue\<close>: the assignment to \<^verbatim>\<open>*output_\<close> happens only when \<^verbatim>\<open>fromStr\<close>
  returns; each handler fills \<^verbatim>\<open>parseErr_\<close> of the parameter and returns false, and
  with the handler the exception and the characters of \<^verbatim>\<open>what()\<close> end.
\<close>

definition parseValue ::
  "fp_lib \<Rightarrow> parameter \<Rightarrow> string option \<Rightarrow> store \<Rightarrow> fault + (bool \<times> parameter \<times> store)" where
  "parseValue fp p valStr m =
     (case fromStr fp (valueT p) valStr of
        Inl f \<Rightarrow> Inl f
      | Inr (Inr v) \<Rightarrow> Inr (True, p, m(output_ptr p := v))
      | Inr (Inl invalid_argument) \<Rightarrow>
          Inr (False,
               p\<lparr>parseErr := \<lparr>desc = Chars ''Invalid Argument'', source = ptr_of valStr,
                               details = Dangling\<rparr>\<rparr>,
               m)
      | Inr (Inl out_of_range) \<Rightarrow>
          Inr (False,
               p\<lparr>parseErr := \<lparr>desc = Chars ''Value Out of Range'', source = ptr_of valStr,
                               details = Dangling\<rparr>\<rparr>,
               m))"

subsection \<open>\<^verbatim>\<open>Parser\<close>\<close>

definition kMaxParams :: nat where
  "kMaxParams = 256"

record parser_error =
  pe_desc :: string
  srcArgv :: int

record parser =
  argv :: "string list"
  params :: "parameter option list"
  errors :: "parser_error list"

text \<open>
  \<^verbatim>\<open>argc_\<close> is the length of \<open>argv\<close>; \<^verbatim>\<open>argv[argc]\<close> is the null pointer the
  C++ standard puts there, and nothing lies beyond it.
\<close>

definition argv_at :: "string list \<Rightarrow> nat \<Rightarrow> fault + string option" where
  "argv_at av i =
     (if i < length av then Inr (Some (av ! i))
      else if i = length av then Inr None
      else Inl OutOfBounds)"

text \<open>\<^verbatim>\<open>s[0]\<close> of a C string: its first character, or the terminating zero.\<close>

definition first_char :: "string \<Rightarrow> char" where
  "first_char s = (case s of [] \<Rightarrow> CHR 0x00 | c # cs \<Rightarrow> c)"

text \<open>\<^verbatim>\<open>(int)c\<close> for a plain \<^verbatim>\<open>char\<close>, which is a signed byte here.\<close>

definition key_index :: "char \<Rightarrow> int" where
  "key_index c = (if of_char c < (128::nat) then int (of_char c) else int (of_char c) - 256)"

definition Parser :: "string list \<Rightarrow> parser" where
  "Parser av = \<lparr>argv = av, params = replicate kMaxParams None, errors = []\<rparr>"

definition addParam :: "parameter \<Rightarrow> parser \<Rightarrow> fault + parser" where
  "addParam p ps =
     (let i = key_index (key p)
      in if 0 \<le> i \<and> nat i < kMaxParams
         then Inr (ps\<lparr>params := (params ps)[nat i := Some p]\<rparr>)
         else Inl OutOfBounds)"

text \<open>
  \<^verbatim>\<open>parse\<close>, lines 191 to 199. The result holds the returned boolean, the parser
  (the parameter object is updated in place), caller memory, and what was written to
  \<^verbatim>\<open>std::cout\<close>.
\<close>

definition parse ::
  "fp_lib \<Rightarrow> parser \<Rightarrow> store \<Rightarrow> fault + (bool \<times> parser \<times> store \<times> string)" where
  "parse fp ps m =
     (case argv_at (argv ps) 1 of
        Inl f \<Rightarrow> Inl f
      | Inr None \<Rightarrow> Inl NullDeref
      | Inr (Some a1) \<Rightarrow>
          let i = key_index (first_char a1)
          in if \<not> (0 \<le> i \<and> nat i < kMaxParams) then Inl OutOfBounds
             else
               (case params ps ! nat i of
                  None \<Rightarrow> Inl NullDeref
                | Some param \<Rightarrow>
                    (case argv_at (argv ps) 2 of
                       Inl f \<Rightarrow> Inl f
                     | Inr a2 \<Rightarrow>
                         (case parseValue fp param a2 m of
                            Inl f \<Rightarrow> Inl f
                          | Inr (ok, param', m') \<Rightarrow>
                              Inr (False,
                                   ps\<lparr>params := (params ps)[nat i := Some param']\<rparr>,
                                   m',
                                   if ok then '' Parsed '' @ [CHR 0x27] @ [first_char a1] @ endl
                                   else [])))))"

subsection \<open>\<^verbatim>\<open>Args\<close>\<close>

record args =
  the_parser :: parser
  remainderName :: string
  procName :: string

definition Args :: "string list \<Rightarrow> args" where
  "Args av =
     \<lparr>the_parser = Parser av, remainderName = [],
      procName = (case av of [] \<Rightarrow> [] | a0 # rest \<Rightarrow> a0)\<rparr>"

definition add_to_args :: "parameter \<Rightarrow> args \<Rightarrow> fault + args" where
  "add_to_args p a =
     (case addParam p (the_parser a) of
        Inl f \<Rightarrow> Inl f
      | Inr ps \<Rightarrow> Inr (a\<lparr>the_parser := ps\<rparr>))"

definition arg_with_default ::
  "value_t \<Rightarrow> addr \<Rightarrow> char \<Rightarrow> string \<Rightarrow> string \<Rightarrow> val \<Rightarrow> args \<Rightarrow> fault + args" where
  "arg_with_default T field k n h d a = add_to_args (Parameter_with_default T field k n h d) a"

definition arg_no_default ::
  "value_t \<Rightarrow> addr \<Rightarrow> char \<Rightarrow> string \<Rightarrow> string \<Rightarrow> args \<Rightarrow> fault + args" where
  "arg_no_default T field k n h a = add_to_args (Parameter_no_default T field k n h) a"

definition remainder :: "string \<Rightarrow> args \<Rightarrow> args" where
  "remainder n a = a\<lparr>remainderName := n\<rparr>"

definition args_parse ::
  "fp_lib \<Rightarrow> args \<Rightarrow> store \<Rightarrow> fault + (bool \<times> args \<times> store \<times> string)" where
  "args_parse fp a m =
     (case parse fp (the_parser a) m of
        Inl f \<Rightarrow> Inl f
      | Inr (b, ps, m', out) \<Rightarrow> Inr (b, a\<lparr>the_parser := ps\<rparr>, m', out))"

text \<open>The parameters of the array that are not null, in the order of the array.\<close>

definition registered :: "parser \<Rightarrow> parameter list" where
  "registered ps = concat (map (\<lambda>x. case x of None \<Rightarrow> [] | Some p \<Rightarrow> [p]) (params ps))"

definition args_usage :: "args \<Rightarrow> string" where
  "args_usage a =
     ''Usage: '' @ procName a @ '' -'' @ map key (registered (the_parser a)) @
     '' <'' @ remainderName a @ ''>''"

fun help_lines :: "fp_lib \<Rightarrow> parameter list \<Rightarrow> fault + string" where
  "help_lines fp [] = Inr []"
| "help_lines fp (p # ps) =
     (case param_help fp p of
        Inl f \<Rightarrow> Inl f
      | Inr l \<Rightarrow> (case help_lines fp ps of Inl f \<Rightarrow> Inl f | Inr ls \<Rightarrow> Inr (l @ ls)))"

definition args_help :: "fp_lib \<Rightarrow> args \<Rightarrow> fault + string" where
  "args_help fp a =
     (case help_lines fp (registered (the_parser a)) of
        Inl f \<Rightarrow> Inl f
      | Inr ls \<Rightarrow> Inr (args_usage a @ endl @ ls @ endl))"

subsection \<open>\<^verbatim>\<open>main.cpp\<close>\<close>

text \<open>
  The structure \<^verbatim>\<open>gOptions\<close> is a global and so starts zero-initialised; its six
  fields are six addresses of the store.
\<close>

definition infile :: addr where "infile = 0"
definition tmppath :: addr where "tmppath = 1"
definition outfile :: addr where "outfile = 2"
definition rate :: addr where "rate = 3"
definition debug :: addr where "debug = 4"
definition verbose :: addr where "verbose = 5"

definition gOptions :: store where
  "gOptions =
     (\<lambda>a. VBool False)
       (infile := VCString None, tmppath := VCString None, outfile := VCString None,
        rate := VFloat 0, debug := VBool False, verbose := VBool False)"

definition and_then :: "fault + 'a \<Rightarrow> ('a \<Rightarrow> fault + 'b) \<Rightarrow> fault + 'b" where
  "and_then r f = (case r of Inl e \<Rightarrow> Inl e | Inr x \<Rightarrow> f x)"

text \<open>Lines 16 to 22 of \<^verbatim>\<open>main\<close>; \<^verbatim>\<open>0.75f\<close> has the bit pattern \<^verbatim>\<open>0x3F400000\<close>.\<close>

definition main_args :: "string list \<Rightarrow> fault + args" where
  "main_args av =
     and_then (arg_with_default TCString infile CHR ''i'' ''input'' ''Specify the input file''
                 (VCString (Some ''./in.foo'')) (Args av)) (\<lambda>a.
     and_then (arg_with_default TCString tmppath CHR ''t'' ''temp'' ''Path for temporary files''
                 (VCString (Some ''/tmp/'')) a) (\<lambda>a.
     and_then (arg_with_default TFloat rate CHR ''r'' ''rate'' ''Rate of enytopy''
                 (VFloat 0x3F400000) a) (\<lambda>a.
     and_then (arg_no_default TBool debug CHR ''d'' ''debug'' ''Start in daemon mode'' a) (\<lambda>a.
     and_then (arg_no_default TBool verbose CHR ''v'' ''verbose'' ''Level of verbosity'' a) (\<lambda>a.
     Inr (remainder ''output path'' a))))))"

text \<open>Line 23 of \<^verbatim>\<open>main\<close>: the call of \<^verbatim>\<open>parse\<close> after the registrations.\<close>

definition main_parse :: "fp_lib \<Rightarrow> string list \<Rightarrow> fault + (bool \<times> args \<times> store \<times> string)" where
  "main_parse fp av = and_then (main_args av) (\<lambda>a. args_parse fp a gOptions)"

text \<open>
  A library instance for the concrete runs below that involve no floating-point value
  and no floating-point output: what it computes is never used there.
\<close>

definition no_fp :: fp_lib where
  "no_fp =
     \<lparr>float_value = (\<lambda>s. None),
      double_value = (\<lambda>s. None),
      put_float = (\<lambda>x. []),
      put_double = (\<lambda>x. [])\<rparr>"

text \<open>
  A library instance for the concrete runs that convert the literal \<^verbatim>\<open>1.5\<close>, which
  is exact in binary: \<^verbatim>\<open>0x3FC00000\<close> as a \<^verbatim>\<open>float\<close> and
  \<^verbatim>\<open>0x3FF8000000000000\<close> as a \<^verbatim>\<open>double\<close>. It is used at this literal only.
\<close>

definition exact_fp :: fp_lib where
  "exact_fp =
     \<lparr>float_value = (\<lambda>s. if s = ''1.5'' then Some 0x3FC00000 else None),
      double_value = (\<lambda>s. if s = ''1.5'' then Some 0x3FF8000000000000 else None),
      put_float = (\<lambda>x. []),
      put_double = (\<lambda>x. [])\<rparr>"

subsection \<open>The example program of the header comment\<close>

text \<open>
  Lines 41 to 46 of \<^verbatim>\<open>argh.h\<close>: two strings with defaults, then two flags. The
  structure of options there has the fields \<^verbatim>\<open>infile\<close>, \<^verbatim>\<open>tmppath\<close>,
  \<^verbatim>\<open>debug\<close> and \<^verbatim>\<open>verbose\<close> as well.
\<close>

definition example_params :: "parameter list" where
  "example_params =
     [Parameter_with_default TCString infile CHR ''i'' ''input'' ''Specify the input file''
        (VCString (Some ''./in.foo'')),
      Parameter_with_default TCString tmppath CHR ''t'' ''temp'' ''Path for temporary files''
        (VCString (Some ''/tmp/'')),
      Parameter_no_default TBool debug CHR ''d'' ''debug'' ''Start in daemon mode'',
      Parameter_no_default TBool verbose CHR ''v'' ''verbose'' ''Level of verbosity'']"

definition example_args :: "string list \<Rightarrow> fault + args" where
  "example_args av =
     and_then (arg_with_default TCString infile CHR ''i'' ''input'' ''Specify the input file''
                 (VCString (Some ''./in.foo'')) (Args av)) (\<lambda>a.
     and_then (arg_with_default TCString tmppath CHR ''t'' ''temp'' ''Path for temporary files''
                 (VCString (Some ''/tmp/'')) a) (\<lambda>a.
     and_then (arg_no_default TBool debug CHR ''d'' ''debug'' ''Start in daemon mode'' a) (\<lambda>a.
     and_then (arg_no_default TBool verbose CHR ''v'' ''verbose'' ''Level of verbosity'' a) (\<lambda>a.
     Inr (remainder ''output path'' a)))))"

subsection \<open>Notions the statements below are written in\<close>

text \<open>
  The value of a string of digits, most significant digit first; the number a string
  starts with once white space and one sign are passed; and what the specification calls
  a well-formed decimal: a sign or none, then digits and nothing else.
\<close>

fun decimal_value :: "string \<Rightarrow> int" where
  "decimal_value [] = 0"
| "decimal_value (c # cs) = digit_val c * 10 ^ length cs + decimal_value cs"

definition signed_digits :: "string \<Rightarrow> int option" where
  "signed_digits t =
     (let neg = (take 1 t = ''-'');
          u = (if take 1 t = ''-'' \<or> take 1 t = ''+'' then drop 1 t else t);
          ds = takeWhile isdigit u
      in if ds = [] then None
         else Some (if neg then - decimal_value ds else decimal_value ds))"

definition decimal_prefix :: "string \<Rightarrow> int option" where
  "decimal_prefix s = signed_digits (dropWhile isspace s)"

definition well_formed_decimal :: "string \<Rightarrow> bool" where
  "well_formed_decimal s =
     (let u = (if take 1 s = ''-'' \<or> take 1 s = ''+'' then drop 1 s else s)
      in u \<noteq> [] \<and> list_all isdigit u)"

definition whole_decimal :: "string \<Rightarrow> int" where
  "whole_decimal s =
     (if take 1 s = ''-'' then - decimal_value (drop 1 s)
      else if take 1 s = ''+'' then decimal_value (drop 1 s)
      else decimal_value s)"

text \<open>
  The piece of a token that is converted to a floating-point number, and what the
  specification calls a decimal or exponential literal: a sign or none; digits with at
  most one point among them, at least one digit; and then nothing, or the letter
  \<^verbatim>\<open>e\<close>, a sign or none, and digits.
\<close>

definition float_prefix :: "string \<Rightarrow> string" where
  "float_prefix s = strtod_subject (dropWhile isspace s)"

definition well_formed_float :: "string \<Rightarrow> bool" where
  "well_formed_float s =
     (let u = drop (length (sign_chars s)) s;
          ma = takeWhile (\<lambda>c. tolower c \<noteq> CHR ''e'') u;
          ex = drop (length ma) u;
          ip = takeWhile (\<lambda>c. c \<noteq> CHR ''.'') ma;
          fd = drop 1 (drop (length ip) ma);
          ed = drop (length (sign_chars (drop 1 ex))) (drop 1 ex)
      in list_all isdigit ip \<and> list_all isdigit fd \<and> (ip \<noteq> [] \<or> fd \<noteq> []) \<and>
         (ex = [] \<or> (ed \<noteq> [] \<and> list_all isdigit ed)))"

text \<open>
  A sequence of registrations, each one a call of \<^verbatim>\<open>Args::arg\<close>; the parameter
  registered last under the key of code \<open>i\<close>; and the parameters a sequence of
  registrations leaves in the array, slot after slot.
\<close>

fun register_all :: "parameter list \<Rightarrow> args \<Rightarrow> fault + args" where
  "register_all [] a = Inr a"
| "register_all (p # qs) a = and_then (add_to_args p a) (register_all qs)"

definition last_with_key :: "parameter list \<Rightarrow> nat \<Rightarrow> parameter option" where
  "last_with_key qs i = find (\<lambda>p. key_index (key p) = int i) (rev qs)"

definition slot_list :: "parameter option \<Rightarrow> parameter list" where
  "slot_list x = (case x of None \<Rightarrow> [] | Some p \<Rightarrow> [p])"

definition listed :: "parameter list \<Rightarrow> parameter list" where
  "listed qs = concat (map (\<lambda>i. slot_list (last_with_key qs i)) [0..<kMaxParams])"

text \<open>
  The line of one parameter in the help text, for a parameter whose default can be
  printed (any default but a null \<^verbatim>\<open>const char*\<close>).
\<close>

definition default_text :: "fp_lib \<Rightarrow> parameter \<Rightarrow> string" where
  "default_text fp p = (case put_val fp (defVal p) of Inl f \<Rightarrow> [] | Inr d \<Rightarrow> d)"

definition help_line :: "fp_lib \<Rightarrow> parameter \<Rightarrow> string" where
  "help_line fp p =
     put_left 5 ('' -'' @ [key p]) @
     put_left 14 (''  --'' @ name p) @
     put_left 24 (if hasDef p then ''[default: '' @ default_text fp p @ ''] '' else []) @
     help_text p @ endl"

definition printable :: "parameter \<Rightarrow> bool" where
  "printable p = (hasDef p \<longrightarrow> defVal p \<noteq> VCString None)"

section \<open>Boolean parameters\<close>

text \<open>
  C10. For every input string, \<^verbatim>\<open>parseValue\<close> on a boolean parameter returns true
  and writes true to the target field; the characters are not read, so it cannot fail.
  The same holds for the null pointer.
\<close>

theorem parseValue_bool_always_true:
  "valueT p = TBool \<Longrightarrow>
     parseValue fp p (Some s) m = Inr (True, p, m(output_ptr p := VBool True)) \<and>
     parseValue fp p None m = Inr (True, p, m(output_ptr p := VBool True))"
  by (simp add: parseValue_def)

theorem parseValue_bool_always_true_witness:
  "valueT (Parameter_no_default TBool debug CHR ''d'' ''debug'' ''Start in daemon mode'') = TBool \<and>
   parseValue no_fp (Parameter_no_default TBool debug CHR ''d'' ''debug'' ''Start in daemon mode'')
     (Some ''false'') gOptions =
   Inr (True, Parameter_no_default TBool debug CHR ''d'' ''debug'' ''Start in daemon mode'',
        gOptions(debug := VBool True)) \<and>
   parseValue no_fp (Parameter_no_default TBool debug CHR ''d'' ''debug'' ''Start in daemon mode'')
     (Some []) gOptions =
   Inr (True, Parameter_no_default TBool debug CHR ''d'' ''debug'' ''Start in daemon mode'',
        gOptions(debug := VBool True))"
  using parseValue_bool_always_true
    [of "Parameter_no_default TBool debug CHR ''d'' ''debug'' ''Start in daemon mode''" no_fp
        "''false''" gOptions]
    parseValue_bool_always_true
    [of "Parameter_no_default TBool debug CHR ''d'' ''debug'' ''Start in daemon mode''" no_fp
        "[]" gOptions]
  by (simp add: Parameter_no_default_def)

section \<open>Runs of \<^verbatim>\<open>parse\<close> after the registrations of \<^verbatim>\<open>main\<close>\<close>

lemmas run_defs =
  main_parse_def main_args_def and_then_def arg_with_default_def arg_no_default_def
  add_to_args_def addParam_def key_index_def kMaxParams_def Args_def Parser_def
  Parameter_with_default_def Parameter_no_default_def remainder_def args_parse_def parse_def
  argv_at_def first_char_def parseValue_def

text \<open>
  C1. The claim is that \<^verbatim>\<open>parse\<close> returns true exactly when the error list is empty.
  On the command line \<^verbatim>\<open>./foo i /input/file\<close> the parameter of key \<^verbatim>\<open>i\<close> is found,
  its value is converted and written to \<^verbatim>\<open>infile\<close>, the error list is empty, and
  \<^verbatim>\<open>parse\<close> returns false all the same: line 198 returns false on every path.
\<close>

theorem parse_returns_false_without_errors:
  "map_sum id (\<lambda>(b, a, m, out). (b, errors (the_parser a), m infile, out))
     (main_parse fp [''./foo'', ''i'', ''/input/file'']) =
   Inr (False, [], VCString (Some ''/input/file''), '' Parsed '' @ [CHR 0x27] @ ''i'' @ endl)"
  by (simp add: run_defs gOptions_def infile_def)

text \<open>
  C2. The command line of the header's example,
  \<^verbatim>\<open>./foo -dvi /input/file -t=/tmp/path/ --rate 0.9 /output/file\<close>: \<^verbatim>\<open>parse\<close> takes the
  first character of \<^verbatim>\<open>argv[1]\<close>, a dash, as the key; no parameter is registered under
  the dash, and the call through the null entry of \<^verbatim>\<open>params_\<close> has no defined result.
  Nothing is written to any field.
\<close>

theorem parse_documented_example_faults:
  "main_parse fp
     [''./foo'', ''-dvi'', ''/input/file'', ''-t=/tmp/path/'', ''--rate'', ''0.9'',
      ''/output/file''] =
   Inl NullDeref"
  by (simp add: run_defs)

text \<open>
  C5. A boolean flag given as \<^verbatim>\<open>-d\<close> or as \<^verbatim>\<open>--debug\<close> is looked up under the dash
  as well: the field \<^verbatim>\<open>debug\<close> is not set, the call goes through a null pointer.
\<close>

theorem parse_boolean_flag_faults:
  "main_parse fp [''./foo'', ''-d''] = Inl NullDeref \<and>
   main_parse fp [''./foo'', ''--debug''] = Inl NullDeref"
  by (simp add: run_defs)

text \<open>
  C6. An unknown key \<^verbatim>\<open>-x\<close>: \<^verbatim>\<open>parse\<close> does not return false and records no error;
  it calls through the null entry of \<^verbatim>\<open>params_\<close>, with or without further tokens, and
  the same happens for the bare key \<^verbatim>\<open>x\<close>.
\<close>

theorem parse_unknown_key_faults:
  "main_parse fp [''./foo'', ''-x''] = Inl NullDeref \<and>
   main_parse fp [''./foo'', ''-x'', ''-d''] = Inl NullDeref \<and>
   main_parse fp [''./foo'', ''x'', ''1''] = Inl NullDeref"
  by (simp add: run_defs)

text \<open>
  C8. On the command line \<^verbatim>\<open>./foo d 1\<close> only the parameter \<^verbatim>\<open>d\<close> is supplied. After
  \<^verbatim>\<open>parse\<close> the fields \<^verbatim>\<open>infile\<close>, \<^verbatim>\<open>tmppath\<close> and \<^verbatim>\<open>rate\<close> still hold the
  zero they started with, not the defaults \<^verbatim>\<open>"./in.foo"\<close>, \<^verbatim>\<open>"/tmp/"\<close> and
  \<^verbatim>\<open>0.75f\<close> of their registrations: no constructor and no line of \<^verbatim>\<open>parse\<close>
  copies \<^verbatim>\<open>defVal_\<close> to the field.
\<close>

theorem parse_leaves_defaults_unwritten:
  "map_sum id (\<lambda>(b, a, m, out). (b, m infile, m tmppath, m rate, m debug))
     (main_parse fp [''./foo'', ''d'', ''1'']) =
   Inr (False, VCString None, VCString None, VFloat 0, VBool True)"
  by (simp add: run_defs gOptions_def infile_def tmppath_def rate_def debug_def outfile_def
      verbose_def)

section \<open>Conversion of value tokens\<close>

subsection \<open>The integer scanner\<close>

lemma strtol_digits_takeWhile:
  "strtol_digits acc u =
     acc * 10 ^ length (takeWhile isdigit u) + decimal_value (takeWhile isdigit u)"
  by (induction u arbitrary: acc) (simp_all add: algebra_simps)

lemma strtol_signed_digits:
  "(case strtol_sign t of
      (neg, u) \<Rightarrow>
        (case u of
           [] \<Rightarrow> Inl invalid_argument
         | c # cs \<Rightarrow>
             if \<not> isdigit c then Inl invalid_argument
             else
               let v = strtol_digits 0 u;
                   r = (if neg then - v else v)
               in if r < INT_MIN \<or> INT_MAX < r then Inl out_of_range
                  else Inr r)) =
   (case signed_digits t of
      None \<Rightarrow> Inl invalid_argument
    | Some v \<Rightarrow>
        if v < INT_MIN \<or> INT_MAX < v then Inl out_of_range else Inr v)"
proof (cases t)
  case Nil
  then show ?thesis by (simp add: strtol_sign_def signed_digits_def)
next
  case (Cons c r)
  show ?thesis
  proof (cases r)
    case Nil
    with Cons show ?thesis
      by (simp add: strtol_sign_def signed_digits_def Let_def strtol_digits_takeWhile)
  next
    case (Cons d r')
    with \<open>t = c # r\<close> show ?thesis
      by (simp add: strtol_sign_def signed_digits_def Let_def strtol_digits_takeWhile)
  qed
qed

lemma stoi_decimal_prefix:
  "stoi s =
     (case decimal_prefix s of
        None \<Rightarrow> Inl invalid_argument
      | Some v \<Rightarrow>
          if v < INT_MIN \<or> INT_MAX < v then Inl out_of_range else Inr v)"
  unfolding stoi_def decimal_prefix_def by (rule strtol_signed_digits)

lemma isdigit_not_isspace: "isdigit c \<Longrightarrow> \<not> isspace c"
  by (auto simp: isdigit_def isspace_def)

lemma takeWhile_all: "list_all P xs \<Longrightarrow> takeWhile P xs = xs"
  by (induction xs) simp_all

lemma well_formed_decimal_prefix:
  assumes "well_formed_decimal s"
  shows "decimal_prefix s = Some (whole_decimal s)"
proof (cases s)
  case Nil
  with assms show ?thesis by (simp add: well_formed_decimal_def)
next
  case (Cons c r)
  show ?thesis
  proof (cases "c = CHR ''-'' \<or> c = CHR ''+''")
    case True
    with Cons assms have r: "r \<noteq> []" "list_all isdigit r"
      by (auto simp: well_formed_decimal_def)
    from True have "\<not> isspace c" by (auto simp: isspace_def)
    with Cons have "dropWhile isspace s = s" by simp
    with True Cons r show ?thesis
      by (auto simp: decimal_prefix_def signed_digits_def whole_decimal_def takeWhile_all)
  next
    case False
    with Cons assms have all: "list_all isdigit s"
      by (simp add: well_formed_decimal_def)
    with Cons have "isdigit c" by simp
    then have "\<not> isspace c" by (rule isdigit_not_isspace)
    with Cons have "dropWhile isspace s = s" by simp
    with False Cons all show ?thesis
      by (simp add: decimal_prefix_def signed_digits_def whole_decimal_def takeWhile_all)
  qed
qed

subsection \<open>The floating-point scanner\<close>

lemma takeWhile_all_append:
  "list_all P xs \<Longrightarrow> (case r of [] \<Rightarrow> True | c # cs \<Rightarrow> \<not> P c) \<Longrightarrow> takeWhile P (xs @ r) = xs"
  by (induction xs) (auto split: list.splits)

lemma sign_chars_cases: "sign_chars t = [] \<or> sign_chars t = ''-'' \<or> sign_chars t = ''+''"
  by (cases t) (auto simp: sign_chars_def)

lemma sign_chars_split: "sign_chars t @ drop (length (sign_chars t)) t = t"
  by (cases t) (auto simp: sign_chars_def)

lemma sign_chars_digit: "isdigit c \<Longrightarrow> sign_chars (c # cs) = []"
  by (auto simp: sign_chars_def isdigit_def)

lemma not_digit_chars:
  "\<not> isdigit CHR ''.''" "\<not> isdigit CHR ''-''" "\<not> isdigit CHR ''+''"
  "tolower c = CHR ''e'' \<Longrightarrow> \<not> isdigit c" "tolower c = CHR ''e'' \<Longrightarrow> c \<noteq> CHR ''.''"
  by (auto simp: isdigit_def tolower_def split: if_splits)

lemma digit_tolower: "isdigit c \<Longrightarrow> tolower c = c"
  by (auto simp: isdigit_def tolower_def)

text \<open>The scanner on a string put together from the parts of a literal.\<close>

lemma exponent_part_whole:
  assumes "tolower c = CHR ''e''" and "sg = [] \<or> sg = ''-'' \<or> sg = ''+''"
    and "ed \<noteq> []" and "list_all isdigit ed"
  shows "exponent_part CHR ''e'' (c # sg @ ed) = c # sg @ ed"
proof -
  from assms(3,4) obtain d ds where ed: "ed = d # ds" "isdigit d" by (cases ed) auto
  then have sc: "sign_chars (sg @ ed) = sg"
    using assms(2) by (auto simp: sign_chars_def isdigit_def)
  with ed assms(1,4) show ?thesis
    by (simp add: exponent_part_def Let_def list_all_iff)
qed

lemma exponent_part_Nil: "exponent_part e [] = []"
  by (simp add: exponent_part_def)

lemma mantissa_whole:
  assumes "list_all isdigit ip" and "list_all isdigit fd" and "ip \<noteq> [] \<or> fd \<noteq> []"
    and "fr = [] \<or> fr = ''.'' @ fd" and "fr = [] \<longrightarrow> fd = []"
    and "case r of [] \<Rightarrow> True | c # cs \<Rightarrow> \<not> isdigit c \<and> c \<noteq> CHR ''.''"
  shows "mantissa isdigit (ip @ fr @ r) = ip @ fr"
proof -
  have nd: "case fr @ r of [] \<Rightarrow> True | c # cs \<Rightarrow> \<not> isdigit c"
    using assms(4,6) by (auto simp: not_digit_chars split: list.splits)
  have ip: "takeWhile isdigit (ip @ fr @ r) = ip"
    using takeWhile_all_append [OF assms(1) nd] by simp
  show ?thesis
  proof (cases "fr = []")
    case True
    with assms(3,5) have "ip \<noteq> []" by simp
    moreover from True assms(6) have "take 1 r \<noteq> ''.''" by (cases r) auto
    ultimately show ?thesis using True ip by (simp add: mantissa_def Let_def)
  next
    case False
    with assms(4) have fr: "fr = ''.'' @ fd" by simp
    have "case r of [] \<Rightarrow> True | c # cs \<Rightarrow> \<not> isdigit c"
      using assms(6) by (auto split: list.splits)
    from takeWhile_all_append [OF assms(2) this] have "takeWhile isdigit (fd @ r) = fd" .
    with fr ip assms(3) show ?thesis by (simp add: mantissa_def Let_def)
  qed
qed


lemma literal_chars_guards:
  assumes "list_all (\<lambda>c. isdigit c \<or> c = CHR ''.'' \<or> c = CHR ''-'' \<or> c = CHR ''+'' \<or>
                      tolower c = CHR ''e'') u"
    and "u \<noteq> []"
  shows "\<not> starts_nocase ''infinity'' u" and "\<not> starts_nocase ''inf'' u"
    and "\<not> starts_nocase ''nan'' u" and "\<not> starts_nocase ''0x'' u"
    and "\<not> isspace (hd u)"
proof -
  from assms obtain c cs where u: "u = c # cs"
    and c: "isdigit c \<or> c = CHR ''.'' \<or> c = CHR ''-'' \<or> c = CHR ''+'' \<or> tolower c = CHR ''e''"
    by (cases u) auto
  from c have t: "tolower c \<noteq> CHR ''i''" "tolower c \<noteq> CHR ''n''"
    by (auto simp: digit_tolower isdigit_def tolower_def split: if_splits)
  from t u show "\<not> starts_nocase ''infinity'' u" "\<not> starts_nocase ''inf'' u"
    "\<not> starts_nocase ''nan'' u"
    by (simp_all add: starts_nocase_def)
  show "\<not> starts_nocase ''0x'' u"
  proof (cases cs)
    case Nil
    with u show ?thesis by (simp add: starts_nocase_def)
  next
    case (Cons d ds)
    with assms(1) u
    have "isdigit d \<or> d = CHR ''.'' \<or> d = CHR ''-'' \<or> d = CHR ''+'' \<or> tolower d = CHR ''e''"
      by simp
    then have "tolower d \<noteq> CHR ''x''"
      by (auto simp: digit_tolower isdigit_def tolower_def split: if_splits)
    with Cons u show ?thesis by (simp add: starts_nocase_def)
  qed
  from c u show "\<not> isspace (hd u)"
    by (auto simp: isdigit_def isspace_def tolower_def split: if_splits)
qed

lemma well_formed_float_prefix:
  assumes "well_formed_float s"
  shows "float_prefix s = s"
proof -
  define sg where "sg = sign_chars s"
  define u where "u = drop (length sg) s"
  define ma where "ma = takeWhile (\<lambda>c. tolower c \<noteq> CHR ''e'') u"
  define ex where "ex = drop (length ma) u"
  define ip where "ip = takeWhile (\<lambda>c. c \<noteq> CHR ''.'') ma"
  define fr where "fr = drop (length ip) ma"
  define fd where "fd = drop 1 fr"
  define ed where "ed = drop (length (sign_chars (drop 1 ex))) (drop 1 ex)"
  from assms have wf: "list_all isdigit ip" "list_all isdigit fd" "ip \<noteq> [] \<or> fd \<noteq> []"
    "ex = [] \<or> (ed \<noteq> [] \<and> list_all isdigit ed)"
    unfolding well_formed_float_def Let_def
    by (simp_all add: sg_def u_def ma_def ex_def ip_def fr_def fd_def ed_def)
  have s: "s = sg @ u" unfolding sg_def u_def by (rule sign_chars_split [symmetric])
  have sg: "sg = [] \<or> sg = ''-'' \<or> sg = ''+''" unfolding sg_def by (rule sign_chars_cases)
  have u: "u = ma @ ex"
    unfolding ma_def ex_def by (simp add: dropWhile_eq_drop [symmetric])
  have ma: "ma = ip @ fr"
    unfolding ip_def fr_def by (simp add: dropWhile_eq_drop [symmetric])
  have ex_eq: "ex = dropWhile (\<lambda>c. tolower c \<noteq> CHR ''e'') u"
    unfolding ex_def ma_def by (simp add: dropWhile_eq_drop)
  have fr_eq: "fr = dropWhile (\<lambda>c. c \<noteq> CHR ''.'') ma"
    unfolding fr_def ip_def by (simp add: dropWhile_eq_drop)
  have fr: "fr = [] \<or> fr = ''.'' @ fd"
  proof (cases fr)
    case Nil
    then show ?thesis by simp
  next
    case (Cons c cs)
    with fr_eq have "dropWhile (\<lambda>c. c \<noteq> CHR ''.'') ma = c # cs" by simp
    then have "c = CHR ''.''" by (simp add: dropWhile_eq_Cons_conv)
    with Cons show ?thesis by (simp add: fd_def)
  qed
  have fr_fd: "fr = [] \<longrightarrow> fd = []" by (simp add: fd_def)
  have ex: "ex = [] \<or> (\<exists>c. tolower c = CHR ''e'' \<and> ex = c # sign_chars (drop 1 ex) @ ed)"
  proof (cases ex)
    case Nil
    then show ?thesis by simp
  next
    case (Cons c cs)
    with ex_eq have "dropWhile (\<lambda>c. tolower c \<noteq> CHR ''e'') u = c # cs" by simp
    then have "tolower c = CHR ''e''" by (simp add: dropWhile_eq_Cons_conv)
    moreover have "cs = sign_chars cs @ drop (length (sign_chars cs)) cs"
      by (rule sign_chars_split [symmetric])
    ultimately show ?thesis using Cons by (auto simp: ed_def)
  qed
  have r: "case ex of [] \<Rightarrow> True | c # cs \<Rightarrow> \<not> isdigit c \<and> c \<noteq> CHR ''.''"
  proof (cases ex)
    case Nil
    then show ?thesis by simp
  next
    case (Cons c cs)
    with ex have "tolower c = CHR ''e''" by auto
    with Cons show ?thesis by (simp add: not_digit_chars)
  qed
  have m: "mantissa isdigit u = ma"
    unfolding u ma using mantissa_whole [OF wf(1,2,3) fr fr_fd r] by simp
  have nonempty: "ma \<noteq> []" using wf(3) ma by (auto simp: fd_def)
  have e: "exponent_part CHR ''e'' ex = ex"
  proof (cases "ex = []")
    case True
    then show ?thesis by (simp add: exponent_part_Nil)
  next
    case False
    with ex obtain c where c: "tolower c = CHR ''e''" "ex = c # sign_chars (drop 1 ex) @ ed"
      by auto
    from False wf(4) have "ed \<noteq> []" "list_all isdigit ed" by simp_all
    from exponent_part_whole [OF c(1) sign_chars_cases this, of "drop 1 ex"] c(2)
    show ?thesis by simp
  qed
  have body: "number_body isdigit CHR ''e'' u = u"
    using m nonempty e by (simp add: number_body_def Let_def ex_def [symmetric]) (simp add: u)
  have chars: "list_all (\<lambda>c. isdigit c \<or> c = CHR ''.'' \<or> c = CHR ''-'' \<or> c = CHR ''+'' \<or>
                      tolower c = CHR ''e'') u"
  proof -
    have "list_all (\<lambda>c. isdigit c \<or> c = CHR ''.'' \<or> c = CHR ''-'' \<or> c = CHR ''+'' \<or>
                      tolower c = CHR ''e'') (ip @ fr)"
      using wf(1,2) fr by (auto simp: list_all_iff)
    moreover have "list_all (\<lambda>c. isdigit c \<or> c = CHR ''.'' \<or> c = CHR ''-'' \<or> c = CHR ''+'' \<or>
                      tolower c = CHR ''e'') ex"
    proof (cases "ex = []")
      case True
      then show ?thesis by simp
    next
      case False
      with ex obtain c where c: "tolower c = CHR ''e''" "ex = c # sign_chars (drop 1 ex) @ ed"
        by auto
      from False wf(4) have "list_all isdigit ed" by simp
      with c sign_chars_cases [of "drop 1 ex"] show ?thesis
        by (subst c(2)) (auto simp: list_all_iff)
    qed
    ultimately show ?thesis unfolding u ma by simp
  qed
  have une: "u \<noteq> []" using nonempty u by simp
  note g = literal_chars_guards [OF chars une]
  have "strtod_subject s = sg @ u"
    unfolding strtod_subject_def Let_def sg_def [symmetric] u_def [symmetric]
    using g(1-4) body une by simp
  with s have subj: "strtod_subject s = s" by simp
  have "\<not> isspace (hd s)"
  proof (cases "sg = []")
    case True
    with s g(5) show ?thesis by simp
  next
    case False
    with sg s show ?thesis by (auto simp: isspace_def)
  qed
  moreover have "s \<noteq> []" using s une by simp
  ultimately have "dropWhile isspace s = s" by (cases s) simp_all
  with subj show ?thesis by (simp add: float_prefix_def)
qed
subsection \<open>\<^verbatim>\<open>parseValue\<close> on a token that does not convert\<close>

text \<open>
  Whenever the conversion of a value token throws, whatever the type of the parameter,
  \<^verbatim>\<open>parseValue\<close> returns false, the whole store (the target field with it) is as it
  was, and the parameter's own \<^verbatim>\<open>parseErr_\<close> holds the kind of the failure and the
  token. The list \<^verbatim>\<open>errors_\<close> of the parser is not involved.
\<close>

lemma parseValue_failure_leaves_field:
  assumes "fromStr fp (valueT p) (Some s) = Inr (Inl e)"
  shows "parseValue fp p (Some s) m =
     Inr (False,
          p\<lparr>parseErr :=
              \<lparr>desc = Chars (case e of
                               invalid_argument \<Rightarrow> ''Invalid Argument''
                             | out_of_range \<Rightarrow> ''Value Out of Range''),
               source = Chars s, details = Dangling\<rparr>\<rparr>,
          m)"
  using assms by (cases e) (simp_all add: parseValue_def ptr_of_def)

lemmas scan_defs =
  float_prefix_def strtod_subject_def sign_chars_def starts_nocase_def tolower_def
  number_body_def mantissa_def exponent_part_def nan_tail_def isdigit_def isxdigit_def
  isspace_def

lemma stof_notanumber: "stof fp ''notanumber'' = Inl invalid_argument"
  by (simp add: stof_def scan_defs)

lemma parseValue_rate_notanumber:
  "parseValue fp
     (Parameter_with_default TFloat rate CHR ''r'' ''rate'' ''Rate of enytopy'' (VFloat 0x3F400000))
     (Some ''notanumber'') m =
   Inr (False,
        (Parameter_with_default TFloat rate CHR ''r'' ''rate'' ''Rate of enytopy''
           (VFloat 0x3F400000))
          \<lparr>parseErr := \<lparr>desc = Chars ''Invalid Argument'', source = Chars ''notanumber'',
                          details = Dangling\<rparr>\<rparr>,
        m)"
  by (simp add: parseValue_def Parameter_with_default_def stof_notanumber ptr_of_def)

text \<open>
  C3. The run the claim names: the token \<^verbatim>\<open>--rate=notanumber\<close> after the
  registrations of \<^verbatim>\<open>main\<close>. \<^verbatim>\<open>parse\<close> does not return false with one recorded
  error: it looks the dash up as a key and calls through a null pointer, for every
  floating-point library. Written the only way \<^verbatim>\<open>parse\<close> reads a key and a value,
  \<^verbatim>\<open>r notanumber\<close>, the token reaches \<^verbatim>\<open>parseValue\<close>: \<^verbatim>\<open>parse\<close> returns false,
  \<^verbatim>\<open>rate\<close> keeps its value and the parameter of key \<^verbatim>\<open>r\<close> (slot 114) holds the kind
  of the failure and the token, but the error list of the parser is still empty.
\<close>

theorem parse_rate_notanumber_faults:
  "main_parse fp [''./foo'', ''--rate=notanumber''] = Inl NullDeref \<and>
   map_sum id
     (\<lambda>(b, a, m, out).
        (b, errors (the_parser a), m rate,
         map_option parseErr (params (the_parser a) ! 114), out))
     (main_parse fp [''./foo'', ''r'', ''notanumber'']) =
   Inr (False, [], VFloat 0,
        Some \<lparr>desc = Chars ''Invalid Argument'', source = Chars ''notanumber'',
              details = Dangling\<rparr>,
        [])"
  by (simp add: run_defs stof_notanumber ptr_of_def gOptions_def rate_def infile_def tmppath_def
      outfile_def debug_def verbose_def)

subsection \<open>Which tokens convert\<close>

text \<open>
  C4, as amended. For a parameter of type \<^verbatim>\<open>int\<close>: the conversion fails as an
  invalid argument exactly when the token, after leading white space and one sign, does
  not go on with a digit; it fails as out of range exactly when the number the token
  starts with is not an \<^verbatim>\<open>int\<close>; otherwise that number is written to the field,
  whatever follows its digits. For a parameter of type \<^verbatim>\<open>float\<close> or
  \<^verbatim>\<open>double\<close>: the conversion fails as an invalid argument exactly when the token,
  after leading white space, does not start with a floating-point number; it fails as
  out of range exactly when the library reports the number it starts with as out of
  range; otherwise the library's value of that number is written to the field, whatever
  follows it. Every failure leaves the store as it was and keeps its kind and the token
  in \<^verbatim>\<open>parseErr_\<close>. A well-formed decimal, and a well-formed decimal or exponential
  literal, is converted as a whole.
\<close>

theorem parseValue_number_conversion:
  "(valueT p = TInt \<longrightarrow>
      parseValue fp p (Some s) m =
        Inr (case decimal_prefix s of
               None \<Rightarrow>
                 (False,
                  p\<lparr>parseErr := \<lparr>desc = Chars ''Invalid Argument'', source = Chars s,
                                  details = Dangling\<rparr>\<rparr>,
                  m)
             | Some v \<Rightarrow>
                 if INT_MIN \<le> v \<and> v \<le> INT_MAX then (True, p, m(output_ptr p := VInt v))
                 else
                   (False,
                    p\<lparr>parseErr := \<lparr>desc = Chars ''Value Out of Range'', source = Chars s,
                                    details = Dangling\<rparr>\<rparr>,
                    m))) \<and>
   (well_formed_decimal s \<longrightarrow> decimal_prefix s = Some (whole_decimal s)) \<and>
   (valueT p = TFloat \<longrightarrow>
      parseValue fp p (Some s) m =
        Inr (if float_prefix s = [] then
               (False,
                p\<lparr>parseErr := \<lparr>desc = Chars ''Invalid Argument'', source = Chars s,
                                details = Dangling\<rparr>\<rparr>,
                m)
             else
               (case float_value fp (float_prefix s) of
                  None \<Rightarrow>
                    (False,
                     p\<lparr>parseErr := \<lparr>desc = Chars ''Value Out of Range'', source = Chars s,
                                     details = Dangling\<rparr>\<rparr>,
                     m)
                | Some x \<Rightarrow> (True, p, m(output_ptr p := VFloat x))))) \<and>
   (valueT p = TDouble \<longrightarrow>
      parseValue fp p (Some s) m =
        Inr (if float_prefix s = [] then
               (False,
                p\<lparr>parseErr := \<lparr>desc = Chars ''Invalid Argument'', source = Chars s,
                                details = Dangling\<rparr>\<rparr>,
                m)
             else
               (case double_value fp (float_prefix s) of
                  None \<Rightarrow>
                    (False,
                     p\<lparr>parseErr := \<lparr>desc = Chars ''Value Out of Range'', source = Chars s,
                                     details = Dangling\<rparr>\<rparr>,
                     m)
                | Some x \<Rightarrow> (True, p, m(output_ptr p := VDouble x))))) \<and>
   (well_formed_float s \<longrightarrow> float_prefix s = s)"
proof (intro conjI impI)
  assume "valueT p = TInt"
  then show "parseValue fp p (Some s) m =
        Inr (case decimal_prefix s of
               None \<Rightarrow>
                 (False,
                  p\<lparr>parseErr := \<lparr>desc = Chars ''Invalid Argument'', source = Chars s,
                                  details = Dangling\<rparr>\<rparr>,
                  m)
             | Some v \<Rightarrow>
                 if INT_MIN \<le> v \<and> v \<le> INT_MAX then (True, p, m(output_ptr p := VInt v))
                 else
                   (False,
                    p\<lparr>parseErr := \<lparr>desc = Chars ''Value Out of Range'', source = Chars s,
                                    details = Dangling\<rparr>\<rparr>,
                    m))"
    by (auto simp: parseValue_def stoi_decimal_prefix ptr_of_def split: option.splits)
next
  assume "well_formed_decimal s"
  then show "decimal_prefix s = Some (whole_decimal s)"
    by (rule well_formed_decimal_prefix)
next
  assume "valueT p = TFloat"
  then show "parseValue fp p (Some s) m =
        Inr (if float_prefix s = [] then
               (False,
                p\<lparr>parseErr := \<lparr>desc = Chars ''Invalid Argument'', source = Chars s,
                                details = Dangling\<rparr>\<rparr>,
                m)
             else
               (case float_value fp (float_prefix s) of
                  None \<Rightarrow>
                    (False,
                     p\<lparr>parseErr := \<lparr>desc = Chars ''Value Out of Range'', source = Chars s,
                                     details = Dangling\<rparr>\<rparr>,
                     m)
                | Some x \<Rightarrow> (True, p, m(output_ptr p := VFloat x))))"
    by (simp add: parseValue_def stof_def float_prefix_def ptr_of_def Let_def
        split: option.splits)
next
  assume "valueT p = TDouble"
  then show "parseValue fp p (Some s) m =
        Inr (if float_prefix s = [] then
               (False,
                p\<lparr>parseErr := \<lparr>desc = Chars ''Invalid Argument'', source = Chars s,
                                details = Dangling\<rparr>\<rparr>,
                m)
             else
               (case double_value fp (float_prefix s) of
                  None \<Rightarrow>
                    (False,
                     p\<lparr>parseErr := \<lparr>desc = Chars ''Value Out of Range'', source = Chars s,
                                     details = Dangling\<rparr>\<rparr>,
                     m)
                | Some x \<Rightarrow> (True, p, m(output_ptr p := VDouble x))))"
    by (simp add: parseValue_def stod_def float_prefix_def ptr_of_def Let_def
        split: option.splits)
next
  assume "well_formed_float s"
  then show "float_prefix s = s"
    by (rule well_formed_float_prefix)
qed

lemmas digit_defs = decimal_prefix_def signed_digits_def isspace_def isdigit_def digit_val_def

theorem parseValue_number_conversion_witness:
  "valueT (Parameter_no_default TInt 6 CHR ''n'' ''count'' ''Number of runs'') = TInt \<and>
   parseValue exact_fp (Parameter_no_default TInt 6 CHR ''n'' ''count'' ''Number of runs'')
     (Some ''2147483648'') gOptions =
   Inr (False,
        (Parameter_no_default TInt 6 CHR ''n'' ''count'' ''Number of runs'')
          \<lparr>parseErr := \<lparr>desc = Chars ''Value Out of Range'', source = Chars ''2147483648'',
                          details = Dangling\<rparr>\<rparr>,
        gOptions) \<and>
   parseValue exact_fp (Parameter_no_default TInt 6 CHR ''n'' ''count'' ''Number of runs'')
     (Some ''-42'') gOptions =
   Inr (True, Parameter_no_default TInt 6 CHR ''n'' ''count'' ''Number of runs'',
        gOptions(6 := VInt (- 42))) \<and>
   well_formed_decimal ''-42'' \<and> decimal_prefix ''-42'' = Some (whole_decimal ''-42'') \<and>
   valueT (Parameter_no_default TFloat rate CHR ''r'' ''rate'' ''Rate of enytopy'') = TFloat \<and>
   parseValue exact_fp (Parameter_no_default TFloat rate CHR ''r'' ''rate'' ''Rate of enytopy'')
     (Some ''notanumber'') gOptions =
   Inr (False,
        (Parameter_no_default TFloat rate CHR ''r'' ''rate'' ''Rate of enytopy'')
          \<lparr>parseErr := \<lparr>desc = Chars ''Invalid Argument'', source = Chars ''notanumber'',
                          details = Dangling\<rparr>\<rparr>,
        gOptions) \<and>
   parseValue exact_fp (Parameter_no_default TFloat rate CHR ''r'' ''rate'' ''Rate of enytopy'')
     (Some ''1.5'') gOptions =
   Inr (True, Parameter_no_default TFloat rate CHR ''r'' ''rate'' ''Rate of enytopy'',
        gOptions(rate := VFloat 0x3FC00000)) \<and>
   well_formed_float ''1.5'' \<and> float_prefix ''1.5'' = ''1.5''"
proof -
  let ?p = "Parameter_no_default TInt 6 CHR ''n'' ''count'' ''Number of runs''"
  let ?q = "Parameter_no_default TFloat rate CHR ''r'' ''rate'' ''Rate of enytopy''"
  have t: "valueT ?p = TInt" by (simp add: Parameter_no_default_def)
  have tq: "valueT ?q = TFloat" by (simp add: Parameter_no_default_def)
  have wf: "well_formed_decimal ''-42''"
    by (simp add: well_formed_decimal_def isdigit_def)
  have wff: "well_formed_float ''1.5''"
    by (simp add: well_formed_float_def sign_chars_def tolower_def isdigit_def)
  have big: "decimal_prefix ''2147483648'' = Some 2147483648"
    by (simp add: digit_defs)
  have neg: "decimal_prefix ''-42'' = Some (- 42)"
    by (simp add: digit_defs)
  have nan: "float_prefix ''notanumber'' = []"
    by (simp add: scan_defs)
  from parseValue_number_conversion [of ?p exact_fp "''2147483648''" gOptions] t big
  have a: "parseValue exact_fp ?p (Some ''2147483648'') gOptions =
     Inr (False,
        ?p\<lparr>parseErr := \<lparr>desc = Chars ''Value Out of Range'', source = Chars ''2147483648'',
                          details = Dangling\<rparr>\<rparr>,
        gOptions)"
    by (simp add: INT_MIN_def INT_MAX_def)
  from parseValue_number_conversion [of ?p exact_fp "''-42''" gOptions] t neg wf
  have b: "parseValue exact_fp ?p (Some ''-42'') gOptions =
     Inr (True, ?p, gOptions(6 := VInt (- 42)))"
     "decimal_prefix ''-42'' = Some (whole_decimal ''-42'')"
    by (simp_all add: INT_MIN_def INT_MAX_def Parameter_no_default_def)
  from parseValue_number_conversion [of ?q exact_fp "''notanumber''" gOptions] tq nan
  have c: "parseValue exact_fp ?q (Some ''notanumber'') gOptions =
     Inr (False,
        ?q\<lparr>parseErr := \<lparr>desc = Chars ''Invalid Argument'', source = Chars ''notanumber'',
                          details = Dangling\<rparr>\<rparr>,
        gOptions)"
    by simp
  from parseValue_number_conversion [of ?q exact_fp "''1.5''" gOptions] wff
  have pre: "float_prefix ''1.5'' = ''1.5''" by simp
  from parseValue_number_conversion [of ?q exact_fp "''1.5''" gOptions] tq pre
  have d: "parseValue exact_fp ?q (Some ''1.5'') gOptions =
     Inr (True, ?q, gOptions(rate := VFloat 0x3FC00000))"
    by (simp add: exact_fp_def Parameter_no_default_def)
  from t tq a b c d wf wff pre show ?thesis by simp
qed

text \<open>
  The claim C4 as it is stated fails for both kinds of number. The token
  \<^verbatim>\<open>12abc\<close> is not a well-formed decimal, and the conversion to \<^verbatim>\<open>int\<close>
  succeeds and writes 12. The token \<^verbatim>\<open>1.5abc\<close> is not a well-formed literal, and
  the conversion to \<^verbatim>\<open>float\<close> reads \<^verbatim>\<open>1.5\<close>, succeeds and writes the
  \<^verbatim>\<open>float\<close> 1.5.
\<close>

theorem parseValue_accepts_trailing_text:
  "\<not> well_formed_decimal ''12abc'' \<and>
   stoi ''12abc'' = Inr 12 \<and>
   parseValue exact_fp (Parameter_no_default TInt 6 CHR ''n'' ''count'' ''Number of runs'')
     (Some ''12abc'') gOptions =
   Inr (True, Parameter_no_default TInt 6 CHR ''n'' ''count'' ''Number of runs'',
        gOptions(6 := VInt 12)) \<and>
   \<not> well_formed_float ''1.5abc'' \<and>
   float_prefix ''1.5abc'' = ''1.5'' \<and>
   parseValue exact_fp (Parameter_no_default TFloat rate CHR ''r'' ''rate'' ''Rate of enytopy'')
     (Some ''1.5abc'') gOptions =
   Inr (True, Parameter_no_default TFloat rate CHR ''r'' ''rate'' ''Rate of enytopy'',
        gOptions(rate := VFloat 0x3FC00000))"
proof -
  have i: "\<not> well_formed_decimal ''12abc''" "stoi ''12abc'' = Inr 12"
    by (simp_all add: well_formed_decimal_def isdigit_def isspace_def digit_val_def stoi_def
        strtol_sign_def INT_MIN_def INT_MAX_def)
  have f: "\<not> well_formed_float ''1.5abc''" "float_prefix ''1.5abc'' = ''1.5''"
    by (simp_all add: well_formed_float_def scan_defs)
  from i f show ?thesis
    by (simp add: parseValue_def Parameter_no_default_def stof_def float_prefix_def
        exact_fp_def)
qed

section \<open>Registration and the help text\<close>

lemma key_index_less: "key_index c < 128"
proof -
  have "(of_char c :: nat) < 256" by (rule nat_of_char_less_256)
  then show ?thesis by (simp add: key_index_def del: nat_of_char_less_256)
qed

lemma key_index_inj: "key_index c = key_index d \<Longrightarrow> c = d"
proof -
  assume eq: "key_index c = key_index d"
  have c: "(of_char c :: nat) < 256" and d: "(of_char d :: nat) < 256"
    by (rule nat_of_char_less_256)+
  from eq have "(of_char c :: nat) = of_char d"
    unfolding key_index_def using c d by (auto split: if_splits simp del: nat_of_char_less_256)
  then show "c = d" by simp
qed

lemma find_append_option:
  "find P (xs @ ys) = (case find P xs of None \<Rightarrow> find P ys | Some x \<Rightarrow> Some x)"
  by (induction xs) simp_all

lemma find_Some_member: "find P xs = Some x \<Longrightarrow> P x \<and> x \<in> set xs"
  by (induction xs) (auto split: if_splits)

text \<open>
  Registrations into any array of the right length: each slot holds the parameter
  registered last under its index, or what it held before.
\<close>

lemma register_all_slots:
  assumes "length (params (the_parser a)) = kMaxParams"
    and "\<forall>p\<in>set qs. 0 \<le> key_index (key p)"
  shows "register_all qs a =
     Inr (a\<lparr>the_parser := (the_parser a)\<lparr>params :=
            map (\<lambda>i. case last_with_key qs i of
                        None \<Rightarrow> params (the_parser a) ! i
                      | Some p \<Rightarrow> Some p) [0..<kMaxParams]\<rparr>\<rparr>)"
  using assms
proof (induction qs arbitrary: a)
  case Nil
  then have "map ((!) (params (the_parser a))) [0..<kMaxParams] = params (the_parser a)"
    by (metis map_nth)
  then show ?case by (simp add: last_with_key_def)
next
  case (Cons q qs)
  define k where "k = nat (key_index (key q))"
  have k: "key_index (key q) = int k" "k < kMaxParams"
    using Cons.prems(2) key_index_less [of "key q"] by (simp_all add: k_def kMaxParams_def)
  define a' where
    "a' = a\<lparr>the_parser := (the_parser a)\<lparr>params := (params (the_parser a))[k := Some q]\<rparr>\<rparr>"
  have step: "add_to_args q a = Inr a'"
    using k by (simp add: add_to_args_def addParam_def a'_def Let_def)
  have len: "length (params (the_parser a')) = kMaxParams"
    using Cons.prems(1) by (simp add: a'_def)
  have "register_all (q # qs) a = register_all qs a'"
    by (simp add: step and_then_def)
  also have "\<dots> = Inr (a'\<lparr>the_parser := (the_parser a')\<lparr>params :=
            map (\<lambda>i. case last_with_key qs i of
                        None \<Rightarrow> params (the_parser a') ! i
                      | Some p \<Rightarrow> Some p) [0..<kMaxParams]\<rparr>\<rparr>)"
    using Cons.IH [OF len] Cons.prems(2) by simp
  also have "map (\<lambda>i. case last_with_key qs i of
                        None \<Rightarrow> params (the_parser a') ! i
                      | Some p \<Rightarrow> Some p) [0..<kMaxParams] =
      map (\<lambda>i. case last_with_key (q # qs) i of
                        None \<Rightarrow> params (the_parser a) ! i
                      | Some p \<Rightarrow> Some p) [0..<kMaxParams]"
    using Cons.prems(1) k
    by (auto simp: last_with_key_def find_append_option a'_def nth_list_update
        split: option.splits)
  finally show ?case by (simp add: a'_def)
qed

lemma register_all_Args:
  assumes "\<forall>p\<in>set qs. 0 \<le> key_index (key p)"
  shows "register_all qs (Args av) =
     Inr ((Args av)\<lparr>the_parser :=
            (Parser av)\<lparr>params := map (last_with_key qs) [0..<kMaxParams]\<rparr>\<rparr>)"
proof -
  have len: "length (params (the_parser (Args av))) = kMaxParams"
    by (simp add: Args_def Parser_def)
  have "map (\<lambda>i. case last_with_key qs i of
                    None \<Rightarrow> params (the_parser (Args av)) ! i
                  | Some p \<Rightarrow> Some p) [0..<kMaxParams] =
        map (last_with_key qs) [0..<kMaxParams]"
    by (rule map_cong) (auto simp: Args_def Parser_def split: option.splits)
  with register_all_slots [OF len assms] show ?thesis
    by (simp add: Args_def)
qed

lemma registered_slots:
  "registered (ps\<lparr>params := map (last_with_key qs) [0..<kMaxParams]\<rparr>) = listed qs"
  by (simp add: registered_def listed_def slot_list_def comp_def)

lemma slot_member:
  "x \<in> set (slot_list (last_with_key qs i)) \<Longrightarrow> key_index (key x) = int i \<and> x \<in> set qs"
proof (cases "last_with_key qs i")
  case None
  assume "x \<in> set (slot_list (last_with_key qs i))"
  with None show ?thesis by (simp add: slot_list_def)
next
  case (Some y)
  assume "x \<in> set (slot_list (last_with_key qs i))"
  with Some have "x = y" by (simp add: slot_list_def)
  with Some find_Some_member [of "\<lambda>p. key_index (key p) = int i" "rev qs" x]
  show ?thesis by (simp add: last_with_key_def)
qed

lemma listed_subset: "set (listed qs) \<subseteq> set qs"
  using slot_member by (auto simp: listed_def)

lemma sorted_listed_upto:
  "sorted_wrt (<) (map (\<lambda>p. key_index (key p))
     (concat (map (\<lambda>i. slot_list (last_with_key qs i)) [0..<n])))"
proof (induction n)
  case 0
  show ?case by simp
next
  case (Suc n)
  have one: "sorted_wrt (<) (map (\<lambda>p. key_index (key p)) (slot_list (last_with_key qs n)))"
    by (simp add: slot_list_def split: option.splits)
  have below: "key_index (key x) < key_index (key y)"
    if "x \<in> set (concat (map (\<lambda>i. slot_list (last_with_key qs i)) [0..<n]))"
      and "y \<in> set (slot_list (last_with_key qs n))" for x y
  proof -
    from that(1) obtain i where "i < n" "x \<in> set (slot_list (last_with_key qs i))" by auto
    with slot_member [of x qs i] slot_member [OF that(2)] show ?thesis by simp
  qed
  from Suc one below show ?case
    by (simp add: sorted_wrt_append)
qed

lemma distinct_keys_listed: "distinct (map key (listed qs))"
proof -
  have "sorted_wrt (<) (map key_index (map key (listed qs)))"
    using sorted_listed_upto [of qs kMaxParams] by (simp add: listed_def comp_def)
  then have "distinct (map key_index (map key (listed qs)))"
    by (simp only: strict_sorted_iff)
  then show ?thesis by (simp only: distinct_map)
qed

lemma mset_slot:
  "distinct (map key qs) \<Longrightarrow>
   mset (slot_list (last_with_key qs i)) = mset (filter (\<lambda>p. key_index (key p) = int i) qs)"
proof (induction qs)
  case Nil
  show ?case by (simp add: slot_list_def last_with_key_def)
next
  case (Cons q qs)
  let ?P = "\<lambda>p. key_index (key p) = int i"
  have IH: "mset (slot_list (find ?P (rev qs))) = mset (filter ?P qs)"
    using Cons by (simp add: last_with_key_def)
  show ?case
  proof (cases "find ?P (rev qs)")
    case None
    with IH show ?thesis
      by (simp add: last_with_key_def find_append_option slot_list_def)
  next
    case (Some x)
    then have "?P x" "x \<in> set qs" by (auto dest: find_Some_member)
    with Cons.prems have "\<not> ?P q"
      using key_index_inj [of "key q" "key x"] by auto
    with Some IH show ?thesis
      by (simp add: last_with_key_def find_append_option)
  qed
qed

lemma mset_filter_Suc:
  "mset (filter (\<lambda>p. 0 \<le> f p \<and> f p < int (Suc n)) qs) =
   mset (filter (\<lambda>p. 0 \<le> f p \<and> f p < int n) qs) + mset (filter (\<lambda>p. f p = int n) qs)"
  by (induction qs) auto

lemma mset_listed_upto:
  "distinct (map key qs) \<Longrightarrow>
   mset (concat (map (\<lambda>i. slot_list (last_with_key qs i)) [0..<n])) =
   mset (filter (\<lambda>p. 0 \<le> key_index (key p) \<and> key_index (key p) < int n) qs)"
proof (induction n)
  case 0
  show ?case by simp
next
  case (Suc n)
  then show ?case
    by (simp only: upt_Suc_append [OF le0] map_append concat_append mset_append mset_filter_Suc
        mset_slot list.map concat.simps append_Nil2)
qed

text \<open>
  When no key is registered twice, the array read from slot 0 upwards is the list of
  registrations sorted by the code of the key.
\<close>

lemma listed_sort_key:
  assumes "\<forall>p\<in>set qs. 0 \<le> key_index (key p)" and "distinct (map key qs)"
  shows "sort_key (\<lambda>p. key_index (key p)) qs = listed qs"
proof (rule sort_key_inj_key_eq)
  have bound: "key_index (key p) < int kMaxParams" for p
    using key_index_less [of "key p"] by (simp add: kMaxParams_def)
  have "filter (\<lambda>p. 0 \<le> key_index (key p) \<and> key_index (key p) < int kMaxParams) qs = qs"
    by (rule filter_True) (simp add: assms(1) bound)
  with mset_listed_upto [OF assms(2), of kMaxParams]
  show "mset qs = mset (listed qs)" by (simp add: listed_def)
  show "inj_on (\<lambda>p. key_index (key p)) (set qs)"
    using assms(2) by (auto simp: inj_on_def distinct_map dest: key_index_inj)
  show "sorted (map (\<lambda>p. key_index (key p)) (listed qs))"
    unfolding listed_def by (rule strict_sorted_imp_sorted) (rule sorted_listed_upto)
qed

lemma put_val_printable:
  "v \<noteq> VCString None \<Longrightarrow>
   put_val fp v = Inr (case put_val fp v of Inl f \<Rightarrow> [] | Inr d \<Rightarrow> d)"
  by (cases "(fp, v)" rule: put_val.cases) simp_all

lemma param_help_line: "printable p \<Longrightarrow> param_help fp p = Inr (help_line fp p)"
  using put_val_printable [of "defVal p" fp]
  by (auto simp: printable_def param_help_def help_line_def defaultStr_def default_text_def
      split: sum.splits)

lemma help_lines_printable:
  "\<forall>p\<in>set ps. printable p \<Longrightarrow> help_lines fp ps = Inr (concat (map (help_line fp) ps))"
  by (induction ps) (simp_all add: param_help_line)

lemma help_after_registrations:
  assumes "\<forall>p\<in>set qs. 0 \<le> key_index (key p) \<and> printable p"
  shows "and_then (register_all qs (Args av)) (\<lambda>a. args_help fp (remainder n a)) =
         Inr (''Usage: '' @ (case av of [] \<Rightarrow> [] | a0 # rest \<Rightarrow> a0) @ '' -'' @
              map key (listed qs) @ '' <'' @ n @ ''>'' @ endl @
              concat (map (help_line fp) (listed qs)) @ endl)"
proof -
  have valid: "\<forall>p\<in>set qs. 0 \<le> key_index (key p)" using assms by simp
  define a where
    "a = (Args av)\<lparr>the_parser := (Parser av)\<lparr>params := map (last_with_key qs) [0..<kMaxParams]\<rparr>\<rparr>"
  have reg: "register_all qs (Args av) = Inr a"
    unfolding a_def by (rule register_all_Args [OF valid])
  have listed: "registered (the_parser (remainder n a)) = listed qs"
    by (simp add: a_def remainder_def registered_slots)
  have "\<forall>p\<in>set (listed qs). printable p"
    using assms listed_subset [of qs] by auto
  then have lines: "help_lines fp (listed qs) = Inr (concat (map (help_line fp) (listed qs)))"
    by (rule help_lines_printable)
  have names: "procName (remainder n a) = (case av of [] \<Rightarrow> [] | a0 # rest \<Rightarrow> a0)"
    "remainderName (remainder n a) = n"
    by (simp_all add: a_def remainder_def Args_def)
  show ?thesis
    by (simp add: reg and_then_def args_help_def args_usage_def listed lines names)
qed

lemma example_args_register_all:
  "example_args av =
     and_then (register_all example_params (Args av)) (\<lambda>a. Inr (remainder ''output path'' a))"
  by (simp add: example_args_def example_params_def and_then_def arg_with_default_def
      arg_no_default_def split: sum.splits)

lemma example_params_ok:
  "\<forall>p\<in>set example_params. 0 \<le> key_index (key p) \<and> printable p"
  by (simp add: example_params_def Parameter_with_default_def Parameter_no_default_def
      key_index_def printable_def)

lemma listed_example_params:
  "listed example_params =
     [Parameter_no_default TBool debug CHR ''d'' ''debug'' ''Start in daemon mode'',
      Parameter_with_default TCString infile CHR ''i'' ''input'' ''Specify the input file''
        (VCString (Some ''./in.foo'')),
      Parameter_with_default TCString tmppath CHR ''t'' ''temp'' ''Path for temporary files''
        (VCString (Some ''/tmp/'')),
      Parameter_no_default TBool verbose CHR ''v'' ''verbose'' ''Level of verbosity'']"
proof -
  have "distinct (map key example_params)"
    by (simp add: example_params_def Parameter_with_default_def Parameter_no_default_def)
  with example_params_ok have "listed example_params =
      sort_key (\<lambda>p. key_index (key p)) example_params"
    by (simp add: listed_sort_key)
  also have "\<dots> =
     [Parameter_no_default TBool debug CHR ''d'' ''debug'' ''Start in daemon mode'',
      Parameter_with_default TCString infile CHR ''i'' ''input'' ''Specify the input file''
        (VCString (Some ''./in.foo'')),
      Parameter_with_default TCString tmppath CHR ''t'' ''temp'' ''Path for temporary files''
        (VCString (Some ''/tmp/'')),
      Parameter_no_default TBool verbose CHR ''v'' ''verbose'' ''Level of verbosity'']"
    by (simp add: example_params_def Parameter_with_default_def Parameter_no_default_def
        key_index_def)
  finally show ?thesis .
qed

lemma help_lines_example:
  "''Usage: ./foo -'' @ map key (listed example_params) @ '' <output path>'' @ endl @
   concat (map (help_line no_fp) (listed example_params)) @ endl =
   ''Usage: ./foo -ditv <output path>'' @ endl @
   '' -d    --debug                             Start in daemon mode'' @ endl @
   '' -i    --input     [default: ./in.foo]     Specify the input file'' @ endl @
   '' -t    --temp      [default: /tmp/]        Path for temporary files'' @ endl @
   '' -v    --verbose                           Level of verbosity'' @ endl @ endl"
  unfolding listed_example_params
  by (simp add: help_line_def put_left_def default_text_def Parameter_with_default_def
      Parameter_no_default_def eval_nat_numeral)

text \<open>
  C7, as amended. No registration is refused for a collision: a sequence of registrations
  whose keys are ASCII characters always succeeds, and leaves in each slot of
  \<^verbatim>\<open>params_\<close> the parameter registered last under that key, an earlier one being
  replaced without a word. So the keys of the parameters in the array are distinct when
  \<^verbatim>\<open>parse\<close> is called; the long names are never compared.
\<close>

theorem registration_keeps_last_per_key:
  assumes "\<forall>p\<in>set qs. 0 \<le> key_index (key p)"
  shows "register_all qs (Args av) =
           Inr ((Args av)\<lparr>the_parser :=
                  (Parser av)\<lparr>params := map (last_with_key qs) [0..<kMaxParams]\<rparr>\<rparr>) \<and>
         distinct (map key
           (registered ((Parser av)\<lparr>params := map (last_with_key qs) [0..<kMaxParams]\<rparr>)))"
  using register_all_Args [OF assms, of av] distinct_keys_listed [of qs]
  by (simp add: registered_slots)

theorem registration_keeps_last_per_key_witness:
  "0 \<le> key_index (key (Parameter_no_default TBool debug CHR ''d'' ''debug'' ''Start in daemon mode'')) \<and>
   0 \<le> key_index (key (Parameter_no_default TBool verbose CHR ''d'' ''debug'' ''Level of verbosity'')) \<and>
   register_all
     [Parameter_no_default TBool debug CHR ''d'' ''debug'' ''Start in daemon mode'',
      Parameter_no_default TBool verbose CHR ''d'' ''debug'' ''Level of verbosity'']
     (Args [''./foo'']) =
   Inr ((Args [''./foo''])\<lparr>the_parser :=
          (Parser [''./foo''])\<lparr>params :=
             map (last_with_key
                    [Parameter_no_default TBool debug CHR ''d'' ''debug'' ''Start in daemon mode'',
                     Parameter_no_default TBool verbose CHR ''d'' ''debug'' ''Level of verbosity''])
                 [0..<kMaxParams]\<rparr>\<rparr>) \<and>
   last_with_key
     [Parameter_no_default TBool debug CHR ''d'' ''debug'' ''Start in daemon mode'',
      Parameter_no_default TBool verbose CHR ''d'' ''debug'' ''Level of verbosity''] 100 =
   Some (Parameter_no_default TBool verbose CHR ''d'' ''debug'' ''Level of verbosity'')"
proof -
  let ?qs = "[Parameter_no_default TBool debug CHR ''d'' ''debug'' ''Start in daemon mode'',
      Parameter_no_default TBool verbose CHR ''d'' ''debug'' ''Level of verbosity'']"
  have h: "\<forall>p\<in>set ?qs. 0 \<le> key_index (key p)"
    by (simp add: Parameter_no_default_def key_index_def)
  have l: "last_with_key ?qs 100 =
      Some (Parameter_no_default TBool verbose CHR ''d'' ''debug'' ''Level of verbosity'')"
    by (simp add: last_with_key_def Parameter_no_default_def key_index_def)
  from registration_keeps_last_per_key [OF h, of "[''./foo'']"] h l show ?thesis by simp
qed

text \<open>
  The claim C7 as it is stated fails: a second parameter with the key and the long name
  of the first is registered without an error and takes its place in slot 100 (the code
  of \<^verbatim>\<open>d\<close>); a second parameter with another key and the same long name is
  registered beside the first.
\<close>

theorem duplicate_registration_accepted:
  "and_then
     (arg_no_default TBool debug CHR ''d'' ''debug'' ''Start in daemon mode'' (Args [''./foo'']))
     (arg_no_default TBool verbose CHR ''d'' ''debug'' ''Level of verbosity'') =
   Inr ((Args [''./foo''])\<lparr>the_parser :=
          (Parser [''./foo''])\<lparr>params :=
             (replicate kMaxParams None)
               [100 := Some (Parameter_no_default TBool verbose CHR ''d'' ''debug''
                               ''Level of verbosity'')]\<rparr>\<rparr>) \<and>
   and_then
     (arg_no_default TBool debug CHR ''d'' ''debug'' ''Start in daemon mode'' (Args [''./foo'']))
     (arg_no_default TBool verbose CHR ''v'' ''debug'' ''Level of verbosity'') =
   Inr ((Args [''./foo''])\<lparr>the_parser :=
          (Parser [''./foo''])\<lparr>params :=
             (replicate kMaxParams None)
               [100 := Some (Parameter_no_default TBool debug CHR ''d'' ''debug''
                               ''Start in daemon mode''),
                118 := Some (Parameter_no_default TBool verbose CHR ''v'' ''debug''
                               ''Level of verbosity'')]\<rparr>\<rparr>)"
  by (simp add: and_then_def arg_no_default_def add_to_args_def addParam_def key_index_def
      kMaxParams_def Args_def Parser_def Parameter_no_default_def)

text \<open>
  C9, as amended. After any sequence of registrations with ASCII keys and printable
  defaults, the help text is the usage line, then one line for each parameter that is in
  the array, in the order of the array, that is by increasing code of the key and not in
  the order of registration, and then an empty line. A line holds the key in a column
  of 5, the long name in a column of 14, the text \<^verbatim>\<open>[default: d]\<close> in a column of 24
  when a default was supplied and 24 spaces when none was, and the help text; a column
  is as wide as its content when that is longer. When no key is registered twice the
  parameters listed are all the registered ones, sorted by the code of the key.
\<close>

theorem args_help_in_key_order:
  assumes "\<forall>p\<in>set qs. 0 \<le> key_index (key p) \<and> printable p"
  shows "and_then (register_all qs (Args av)) (\<lambda>a. args_help fp (remainder n a)) =
         Inr (''Usage: '' @ (case av of [] \<Rightarrow> [] | a0 # rest \<Rightarrow> a0) @ '' -'' @
              map key (listed qs) @ '' <'' @ n @ ''>'' @ endl @
              concat (map (help_line fp) (listed qs)) @ endl) \<and>
         (distinct (map key qs) \<longrightarrow> listed qs = sort_key (\<lambda>p. key_index (key p)) qs)"
  using help_after_registrations [OF assms, of av fp n] listed_sort_key [of qs] assms
  by simp

theorem args_help_in_key_order_witness:
  "list_all (\<lambda>p. 0 \<le> key_index (key p) \<and> printable p) example_params \<and>
   distinct (map key example_params) \<and>
   and_then (register_all example_params (Args [''./foo'']))
     (\<lambda>a. args_help no_fp (remainder ''output path'' a)) =
   Inr (''Usage: ./foo -'' @ map key (listed example_params) @ '' <output path>'' @ endl @
        concat (map (help_line no_fp) (listed example_params)) @ endl) \<and>
   listed example_params = sort_key (\<lambda>p. key_index (key p)) example_params \<and>
   map key (listed example_params) = ''ditv''"
proof -
  have h: "\<forall>p\<in>set example_params. 0 \<le> key_index (key p) \<and> printable p"
    by (rule example_params_ok)
  have d: "distinct (map key example_params)"
    by (simp add: example_params_def Parameter_with_default_def Parameter_no_default_def)
  have k: "map key (listed example_params) = ''ditv''"
    by (simp add: listed_example_params Parameter_with_default_def Parameter_no_default_def)
  from args_help_in_key_order [OF h, of "[''./foo'']" no_fp "''output path''"] h d k
  show ?thesis by (simp add: list_all_iff)
qed

text \<open>
  The claim C9 as it is stated fails on the example program of the header: the
  parameters are registered in the order \<^verbatim>\<open>i\<close>, \<^verbatim>\<open>t\<close>, \<^verbatim>\<open>d\<close>, \<^verbatim>\<open>v\<close>, and
  the help text lists them in the order \<^verbatim>\<open>d\<close>, \<^verbatim>\<open>i\<close>, \<^verbatim>\<open>t\<close>, \<^verbatim>\<open>v\<close>.
\<close>

theorem help_not_in_registration_order:
  "map key example_params = ''itdv'' \<and>
   and_then (example_args [''./foo'']) (args_help no_fp) =
   Inr (''Usage: ./foo -ditv <output path>'' @ endl @
        '' -d    --debug                             Start in daemon mode'' @ endl @
        '' -i    --input     [default: ./in.foo]     Specify the input file'' @ endl @
        '' -t    --temp      [default: /tmp/]        Path for temporary files'' @ endl @
        '' -v    --verbose                           Level of verbosity'' @ endl @ endl)"
proof -
  have "and_then (example_args [''./foo'']) (args_help no_fp) =
        and_then (register_all example_params (Args [''./foo'']))
          (\<lambda>a. args_help no_fp (remainder ''output path'' a))"
    by (simp add: example_args_register_all and_then_def split: sum.splits)
  also have "\<dots> =
     Inr (''Usage: ./foo -'' @ map key (listed example_params) @ '' <output path>'' @ endl @
        concat (map (help_line no_fp) (listed example_params)) @ endl)"
    using help_after_registrations [OF example_params_ok, of "[''./foo'']" no_fp "''output path''"]
    by simp
  finally show ?thesis
    using help_lines_example
    by (simp add: example_params_def Parameter_with_default_def Parameter_no_default_def)
qed

section \<open>Further properties of \<^verbatim>\<open>parse\<close> and of the help line\<close>

text \<open>
  Whenever \<^verbatim>\<open>parse\<close> returns, it returns false, and the error list and the
  argument vector of the parser are as they were: line 198 is the only
  \<^verbatim>\<open>return\<close>, and no line of \<^verbatim>\<open>parse\<close> touches \<^verbatim>\<open>errors_\<close>.
\<close>

lemma parse_never_returns_true:
  assumes "parse fp ps m = Inr (b, ps', m', out)"
  shows "\<not> b \<and> errors ps' = errors ps \<and> argv ps' = argv ps"
  using assms
  by (auto simp: parse_def Let_def split: sum.splits option.splits if_splits prod.splits)

lemma parse_never_returns_true_witness:
  "parse no_fp
     ((Parser [''./foo'', ''d''])\<lparr>params :=
        (replicate kMaxParams None)
          [100 := Some (Parameter_no_default TBool debug CHR ''d'' ''debug''
                          ''Start in daemon mode'')]\<rparr>)
     gOptions =
   Inr (False,
        (Parser [''./foo'', ''d''])\<lparr>params :=
           (replicate kMaxParams None)
             [100 := Some (Parameter_no_default TBool debug CHR ''d'' ''debug''
                             ''Start in daemon mode'')]\<rparr>,
        gOptions(debug := VBool True),
        '' Parsed '' @ [CHR 0x27] @ ''d'' @ endl) \<and>
   errors ((Parser [''./foo'', ''d''])\<lparr>params :=
           (replicate kMaxParams None)
             [100 := Some (Parameter_no_default TBool debug CHR ''d'' ''debug''
                             ''Start in daemon mode'')]\<rparr>) = []"
proof -
  let ?ps = "(Parser [''./foo'', ''d''])\<lparr>params :=
        (replicate kMaxParams None)
          [100 := Some (Parameter_no_default TBool debug CHR ''d'' ''debug''
                          ''Start in daemon mode'')]\<rparr>"
  have run: "parse no_fp ?ps gOptions =
     Inr (False, ?ps, gOptions(debug := VBool True), '' Parsed '' @ [CHR 0x27] @ ''d'' @ endl)"
    by (simp add: parse_def argv_at_def first_char_def key_index_def kMaxParams_def Parser_def
        parseValue_def Parameter_no_default_def)
  from parse_never_returns_true [OF run] run show ?thesis
    by (simp add: Parser_def)
qed

text \<open>
  The help line of a parameter registered with a default holds the text of that default,
  as \<^verbatim>\<open>operator<<\<close> prints it, between \<^verbatim>\<open>[default: \<close> and \<^verbatim>\<open>] \<close>.
\<close>

lemma param_help_shows_default:
  assumes "hasDef p" and "put_val fp (defVal p) = Inr d"
  shows "param_help fp p =
     Inr (put_left 5 ('' -'' @ [key p]) @ put_left 14 (''  --'' @ name p) @
          put_left 24 (''[default: '' @ d @ ''] '') @ help_text p @ endl)"
  using assms by (simp add: param_help_def defaultStr_def)

lemma param_help_shows_default_witness:
  "hasDef (Parameter_with_default TCString infile CHR ''i'' ''input'' ''Specify the input file''
             (VCString (Some ''./in.foo''))) \<and>
   put_val no_fp (defVal (Parameter_with_default TCString infile CHR ''i'' ''input''
             ''Specify the input file'' (VCString (Some ''./in.foo'')))) = Inr ''./in.foo'' \<and>
   param_help no_fp (Parameter_with_default TCString infile CHR ''i'' ''input''
             ''Specify the input file'' (VCString (Some ''./in.foo''))) =
   Inr ('' -i    --input     [default: ./in.foo]     Specify the input file'' @ endl)"
proof -
  let ?p = "Parameter_with_default TCString infile CHR ''i'' ''input''
             ''Specify the input file'' (VCString (Some ''./in.foo''))"
  have h: "hasDef ?p" by (simp add: Parameter_with_default_def)
  have d: "put_val no_fp (defVal ?p) = Inr ''./in.foo''"
    by (simp add: Parameter_with_default_def)
  from param_help_shows_default [OF h d] h d show ?thesis
    by (simp add: Parameter_with_default_def put_left_def eval_nat_numeral)
qed

end
